theory Spec2Isabelle
  imports Main "HOL-Library.AList"
begin

section \<open>The simple-tools server: a per-user key-value store behind an API-key check\<close>

text \<open>
  This theory embeds \<^verbatim>\<open>src/servers/simple-tools-server/main.py\<close>: the module-level
  dictionary \<^verbatim>\<open>user_data_stores\<close>, \<^verbatim>\<open>get_simple_tools_credentials\<close>,
  \<^verbatim>\<open>create_server\<close> and the tool dispatcher \<^verbatim>\<open>handle_call_tool\<close>.

  Conventions of the embedding:
  \<^item> a Python \<^verbatim>\<open>str\<close> is a \<open>string\<close> (only emptiness, equality and concatenation of
    strings matter below), and a value that is \<^verbatim>\<open>str\<close> or \<^verbatim>\<open>None\<close> is a \<open>string option\<close>;
  \<^item> a Python \<^verbatim>\<open>dict\<close> that is iterated (a user's table, listed in insertion order) is an
    association list updated with \<open>AList.update\<close>, which overwrites an existing key in
    place and appends a new one, as \<^verbatim>\<open>d[k] = v\<close> does;
  \<^item> the global dictionary \<^verbatim>\<open>user_data_stores\<close>, which is only looked up and assigned, is
    a map, passed in and returned by every function that touches it;
  \<^item> a raised \<^verbatim>\<open>ValueError\<close> is the left injection of a sum;
  \<^item> what the handler reads from outside the module (the auth client, the process
    environment, \<^verbatim>\<open>uuid.uuid4()\<close>, \<^verbatim>\<open>time.time()\<close>) is a record handed to each call;
  \<^item> logging is left out.
\<close>

subsection \<open>Data\<close>

type_synonym user_id = "string option"

type_synonym kvtable = "(string \<times> string) list"

type_synonym stores = "user_id \<rightharpoonup> kvtable"

text \<open>
  The argument object of a tool call. The input schemas that \<^verbatim>\<open>handle_list_tools\<close>
  declares give every property the type \<^verbatim>\<open>string\<close>, so argument values are strings.
\<close>

type_synonym arguments = "(string \<times> string) list"

text \<open>
  What \<^verbatim>\<open>auth_client.get_user_credentials\<close> may hand back, as far as
  \<^verbatim>\<open>get_simple_tools_credentials\<close> tells the cases apart: nothing, a plain string, or an
  object with a \<^verbatim>\<open>get\<close> method.
\<close>

datatype credentials = CredNone | CredStr string | CredDict "(string \<times> string) list"

datatype error = ValueError string

datatype json = JString string | JInt int | JBool bool | JObject "(string \<times> json) list"

text \<open>
  The text of a content block is either a plain message or \<^verbatim>\<open>json.dumps(result)\<close>; the
  serialiser is library code, so the payload is kept as the \<^verbatim>\<open>result\<close> dictionary it is
  applied to.
\<close>

datatype text_payload = Plain string | JsonDumps json

datatype text_content = TextContent string text_payload

type_synonym outcome = "error + text_content list"

text \<open>
  The attributes \<^verbatim>\<open>create_server\<close> attaches to the server object.
\<close>

record server =
  user_id :: user_id
  api_key :: "string option"
  config :: "(string \<times> string) list option"

text \<open>
  The surroundings of one call: \<open>get_user_credentials env k\<close> is the lookup of the client
  that \<^verbatim>\<open>create_auth_client(api_key=k)\<close> returns (the factory is not part of this module),
  \<open>ENVIRONMENT\<close> is the environment variable of that name, \<open>uuid4_hex\<close> is
  \<^verbatim>\<open>uuid.uuid4().hex\<close> and \<open>time_time\<close> is \<^verbatim>\<open>int(time.time())\<close>.
\<close>

record call_env =
  get_user_credentials :: "string option \<Rightarrow> string \<Rightarrow> user_id \<Rightarrow> credentials"
  ENVIRONMENT :: "string option"
  uuid4_hex :: string
  time_time :: int

subsection \<open>Python truthiness and formatting\<close>

definition truthy_str :: "string option \<Rightarrow> bool" where
  "truthy_str x = (case x of None \<Rightarrow> False | Some s \<Rightarrow> s \<noteq> [])"

definition truthy_credentials :: "credentials \<Rightarrow> bool" where
  "truthy_credentials c =
     (case c of CredNone \<Rightarrow> False | CredStr s \<Rightarrow> s \<noteq> [] | CredDict d \<Rightarrow> d \<noteq> [])"

definition truthy_arguments :: "arguments option \<Rightarrow> bool" where
  "truthy_arguments a = (case a of None \<Rightarrow> False | Some d \<Rightarrow> d \<noteq> [])"

text \<open>\<^verbatim>\<open>arguments.get(name)\<close> on an argument object known to be truthy.\<close>

definition arguments_get :: "arguments option \<Rightarrow> string \<Rightarrow> string option" where
  "arguments_get a f = (case a of None \<Rightarrow> None | Some d \<Rightarrow> map_of d f)"

text \<open>How an f-string renders a user identifier and a length.\<close>

definition str_user :: "user_id \<Rightarrow> string" where
  "str_user u = (case u of None \<Rightarrow> ''None'' | Some s \<Rightarrow> s)"

fun str_nat :: "nat \<Rightarrow> string" where
  "str_nat n =
     (if n < 10 then [char_of (48 + n)]
      else str_nat (n div 10) @ [char_of (48 + n mod 10)])"

declare str_nat.simps [simp del]

subsection \<open>The module state\<close>

text \<open>Line 28: \<^verbatim>\<open>user_data_stores = {}\<close>.\<close>

definition initial_stores :: stores where
  "initial_stores = Map.empty"

text \<open>\<^verbatim>\<open>user_data_stores.get(current_user, {})\<close>\<close>

definition stores_get :: "stores \<Rightarrow> user_id \<Rightarrow> kvtable" where
  "stores_get user_data_stores u = (case user_data_stores u of None \<Rightarrow> [] | Some t \<Rightarrow> t)"

subsection \<open>Authentication\<close>

definition handle_missing_credentials :: "call_env \<Rightarrow> user_id \<Rightarrow> error" where
  "handle_missing_credentials env uid =
     ValueError
       (''Simple Tools API key not found for user '' @ str_user uid @ ''.'' @
        (if (case ENVIRONMENT env of None \<Rightarrow> ''local'' | Some e \<Rightarrow> e) = ''local''
         then '' Please run authentication first.'' else ''''))"

definition get_simple_tools_credentials ::
    "call_env \<Rightarrow> user_id \<Rightarrow> string option \<Rightarrow> error + string" where
  "get_simple_tools_credentials env uid key =
     (let credentials_data = get_user_credentials env key ''simple-tools'' uid in
      if \<not> truthy_credentials credentials_data
      then Inl (handle_missing_credentials env uid)
      else
        (let k = (case credentials_data of
                    CredStr s \<Rightarrow> Some s
                  | CredDict d \<Rightarrow> map_of d ''api_key''
                  | CredNone \<Rightarrow> None)
         in if \<not> truthy_str k
            then Inl (handle_missing_credentials env uid)
            else Inr (the k)))"

subsection \<open>Creating a server\<close>

definition create_server ::
    "user_id \<Rightarrow> string option \<Rightarrow> (string \<times> string) list option \<Rightarrow> stores \<Rightarrow> server \<times> stores" where
  "create_server uid key cfg user_data_stores =
     (\<lparr>user_id = uid, api_key = key, config = cfg\<rparr>,
      if truthy_str uid
      then (case user_data_stores uid of
              None \<Rightarrow> user_data_stores(uid \<mapsto> [])
            | Some t \<Rightarrow> user_data_stores)
      else user_data_stores)"

subsection \<open>The result dictionaries\<close>

definition store_result :: "call_env \<Rightarrow> string \<Rightarrow> string \<Rightarrow> json" where
  "store_result env k v =
     JObject
       [(''id'', JString (''store_'' @ take 8 (uuid4_hex env))),
        (''status'', JString ''success''),
        (''action'', JString ''store''),
        (''key'', JString k),
        (''value'', JString v),
        (''message'', JString (''Stored '' @ [CHR 0x27] @ k @ [CHR 0x27] @ '' with value: '' @ v)),
        (''authenticated'', JBool True),
        (''timestamp'', JInt (time_time env))]"

definition retrieve_not_found_result :: "call_env \<Rightarrow> string \<Rightarrow> json" where
  "retrieve_not_found_result env k =
     JObject
       [(''id'', JString (''retrieve_'' @ take 8 (uuid4_hex env))),
        (''status'', JString ''not_found''),
        (''action'', JString ''retrieve''),
        (''key'', JString k),
        (''message'', JString (''Key '' @ [CHR 0x27] @ k @ [CHR 0x27] @ '' not found'')),
        (''timestamp'', JInt (time_time env))]"

definition retrieve_success_result :: "call_env \<Rightarrow> string \<Rightarrow> string \<Rightarrow> json" where
  "retrieve_success_result env k v =
     JObject
       [(''id'', JString (''retrieve_'' @ take 8 (uuid4_hex env))),
        (''status'', JString ''success''),
        (''action'', JString ''retrieve''),
        (''key'', JString k),
        (''value'', JString v),
        (''message'', JString (''Value for '' @ [CHR 0x27] @ k @ [CHR 0x27] @ '': '' @ v)),
        (''timestamp'', JInt (time_time env))]"

definition list_empty_result :: "call_env \<Rightarrow> json" where
  "list_empty_result env =
     JObject
       [(''id'', JString (''list_'' @ take 8 (uuid4_hex env))),
        (''status'', JString ''empty''),
        (''action'', JString ''list''),
        (''data'', JObject []),
        (''count'', JInt 0),
        (''message'', JString ''No data stored''),
        (''timestamp'', JInt (time_time env))]"

text \<open>\<^verbatim>\<open>"\n".join([f"- {k}: {v}" for k, v in data_store.items()])\<close>\<close>

fun join_lines :: "string list \<Rightarrow> string" where
  "join_lines [] = []"
| "join_lines [l] = l"
| "join_lines (l # m # ls) = l @ [CHR 0x0A] @ join_lines (m # ls)"

definition format_entry :: "string \<times> string \<Rightarrow> string" where
  "format_entry p = ''- '' @ fst p @ '': '' @ snd p"

definition list_success_result :: "call_env \<Rightarrow> kvtable \<Rightarrow> json" where
  "list_success_result env data_store =
     JObject
       [(''id'', JString (''list_'' @ take 8 (uuid4_hex env))),
        (''status'', JString ''success''),
        (''action'', JString ''list''),
        (''data'', JObject (map (\<lambda>p. (fst p, JString (snd p))) data_store)),
        (''count'', JInt (int (length data_store))),
        (''message'', JString (''Found '' @ str_nat (length data_store) @ '' items'')),
        (''formatted_list'', JString (join_lines (map format_entry data_store))),
        (''timestamp'', JInt (time_time env))]"

subsection \<open>The tool dispatcher\<close>

text \<open>
  \<^verbatim>\<open>data_store = user_data_stores.get(current_user, {})\<close> is the user's own dictionary
  object when the user has one, and a fresh dictionary otherwise. \<^verbatim>\<open>data_store[key] = value\<close>
  therefore changes the global store at once in the first case, whatever the guard
  \<^verbatim>\<open>if current_user:\<close> decides afterwards; in the second case the new dictionary reaches the
  global store only through that guard. No dictionary object is ever filed under two
  users (\<^verbatim>\<open>create_server\<close> files a new \<^verbatim>\<open>{}\<close>, the handler files the user's own or a
  fresh one), so a map from users to tables loses no sharing.
\<close>

definition handle_call_tool ::
    "call_env \<Rightarrow> server \<Rightarrow> string \<Rightarrow> arguments option \<Rightarrow> stores \<Rightarrow> outcome \<times> stores" where
  "handle_call_tool env srv name arguments user_data_stores =
     (let current_user = user_id srv in
      case get_simple_tools_credentials env current_user (api_key srv) of
        Inl (ValueError e) \<Rightarrow>
          (Inr [TextContent ''text'' (Plain (''Authentication error: '' @ e))], user_data_stores)
      | Inr found_key \<Rightarrow>
          (let data_store = stores_get user_data_stores current_user in
           if name = ''store_data'' then
             (if \<not> truthy_arguments arguments
              then (Inl (ValueError ''Missing arguments''), user_data_stores)
              else
                (let key = arguments_get arguments ''key'';
                     val = arguments_get arguments ''value''
                 in if \<not> truthy_str key \<or> \<not> truthy_str val
                    then (Inl (ValueError ''Missing key or value''), user_data_stores)
                    else
                      (let data_store' = AList.update (the key) (the val) data_store in
                       (Inr [TextContent ''text'' (JsonDumps (store_result env (the key) (the val)))],
                        if user_data_stores current_user \<noteq> None \<or> truthy_str current_user
                        then user_data_stores(current_user \<mapsto> data_store')
                        else user_data_stores))))
           else if name = ''retrieve_data'' then
             (if \<not> truthy_arguments arguments
              then (Inl (ValueError ''Missing arguments''), user_data_stores)
              else
                (let key = arguments_get arguments ''key''
                 in if \<not> truthy_str key
                    then (Inl (ValueError ''Missing key''), user_data_stores)
                    else
                      (case map_of data_store (the key) of
                         None \<Rightarrow>
                           (Inr [TextContent ''text''
                                   (JsonDumps (retrieve_not_found_result env (the key)))],
                            user_data_stores)
                       | Some v \<Rightarrow>
                           (Inr [TextContent ''text''
                                   (JsonDumps (retrieve_success_result env (the key) v))],
                            user_data_stores))))
           else if name = ''list_data'' then
             (if data_store = []
              then (Inr [TextContent ''text'' (JsonDumps (list_empty_result env))],
                    user_data_stores)
              else (Inr [TextContent ''text'' (JsonDumps (list_success_result env data_store))],
                    user_data_stores))
           else (Inl (ValueError (''Unknown tool: '' @ name)), user_data_stores)))"

subsection \<open>Observing outcomes\<close>

text \<open>
  Authentication succeeds for a call when \<^verbatim>\<open>get_simple_tools_credentials\<close> returns a key
  instead of raising.
\<close>

definition authenticated :: "call_env \<Rightarrow> server \<Rightarrow> bool" where
  "authenticated env srv =
     (case get_simple_tools_credentials env (user_id srv) (api_key srv) of
        Inl e \<Rightarrow> False
      | Inr k \<Rightarrow> True)"

text \<open>
  A field of the result dictionary carried by an outcome; \<open>None\<close> when the handler raised,
  when the text is not a serialised dictionary, or when the dictionary lacks the field.
\<close>

fun result_field :: "string \<Rightarrow> outcome \<Rightarrow> json option" where
  "result_field f (Inr [TextContent ty (JsonDumps (JObject fs))]) = map_of fs f"
| "result_field f out = None"

text \<open>Whether the handler raised.\<close>

fun raised :: "outcome \<Rightarrow> bool" where
  "raised (Inl e) = True"
| "raised (Inr r) = False"

subsection \<open>Histories\<close>

text \<open>
  The values \<^verbatim>\<open>user_data_stores\<close> can take: the module starts with the empty dictionary,
  and only \<^verbatim>\<open>create_server\<close> and \<^verbatim>\<open>handle_call_tool\<close> touch it afterwards. The handler may
  run on a server object with any attributes, since they are plain mutable fields.
\<close>

inductive reachable :: "stores \<Rightarrow> bool" where
  initial: "reachable initial_stores"
| created: "reachable s \<Longrightarrow> reachable (snd (create_server uid key cfg s))"
| called: "reachable s \<Longrightarrow> reachable (snd (handle_call_tool env srv name arguments s))"

text \<open>
  \<open>never_stored u k s\<close>: the store \<open>s\<close> results from a history in which no
  \<^verbatim>\<open>store_data\<close> call of user \<open>u\<close> carried the key \<open>k\<close>.
\<close>

inductive never_stored :: "user_id \<Rightarrow> string \<Rightarrow> stores \<Rightarrow> bool" for u :: user_id and k :: string where
  initial: "never_stored u k initial_stores"
| created: "never_stored u k s \<Longrightarrow> never_stored u k (snd (create_server uid key cfg s))"
| called:
    "never_stored u k s \<Longrightarrow>
     \<not> (name = ''store_data'' \<and> user_id srv = u \<and> arguments_get arguments ''key'' = Some k) \<Longrightarrow>
     never_stored u k (snd (handle_call_tool env srv name arguments s))"

text \<open>
  A run of \<^verbatim>\<open>store_data\<close> calls on one server, each with its own surroundings, key and
  value.
\<close>

fun store_each :: "server \<Rightarrow> (call_env \<times> string \<times> string) list \<Rightarrow> stores \<Rightarrow> stores" where
  "store_each srv [] s = s"
| "store_each srv (c # cs) s =
     store_each srv cs
       (snd (handle_call_tool (fst c) srv ''store_data''
               (Some [(''key'', fst (snd c)), (''value'', snd (snd c))]) s))"

text \<open>A run of arbitrary tool calls, each on its own server object.\<close>

datatype call = Call call_env server string "arguments option"

fun caller :: "call \<Rightarrow> user_id" where
  "caller (Call env srv name arguments) = user_id srv"

fun run_calls :: "call list \<Rightarrow> stores \<Rightarrow> stores" where
  "run_calls [] s = s"
| "run_calls (Call env srv name arguments # cs) s =
     run_calls cs (snd (handle_call_tool env srv name arguments s))"

subsection \<open>Concrete surroundings used in the examples\<close>

text \<open>An auth client that knows an API key for every user, and one that knows none.\<close>

definition env_with_key :: call_env where
  "env_with_key =
     \<lparr>get_user_credentials = (\<lambda>k service u. CredDict [(''api_key'', ''secret'')]),
      ENVIRONMENT = None,
      uuid4_hex = ''0123456789abcdef0123456789abcdef'',
      time_time = 1640995200\<rparr>"

definition env_without_key :: call_env where
  "env_without_key =
     \<lparr>get_user_credentials = (\<lambda>k service u. CredNone),
      ENVIRONMENT = None,
      uuid4_hex = ''0123456789abcdef0123456789abcdef'',
      time_time = 1640995200\<rparr>"

text \<open>\<^verbatim>\<open>create_server("alice")\<close>, \<^verbatim>\<open>create_server("bob")\<close> and \<^verbatim>\<open>create_server("")\<close> on the fresh module.\<close>

definition alice :: server where
  "alice = fst (create_server (Some ''alice'') None None initial_stores)"

definition alice_stores :: stores where
  "alice_stores = snd (create_server (Some ''alice'') None None initial_stores)"

definition bob :: server where
  "bob = fst (create_server (Some ''bob'') None None alice_stores)"

definition bob_stores :: stores where
  "bob_stores = snd (create_server (Some ''bob'') None None alice_stores)"

definition nobody :: server where
  "nobody = fst (create_server (Some []) None None initial_stores)"

definition nobody_stores :: stores where
  "nobody_stores = snd (create_server (Some []) None None initial_stores)"

section \<open>Properties\<close>

subsection \<open>The handler, branch by branch\<close>

lemma arguments_get_truthy:
  "arguments_get arguments f = Some x \<Longrightarrow> truthy_arguments arguments"
  by (auto simp: arguments_get_def truthy_arguments_def split: option.splits)

lemma authenticated_iff:
  "authenticated env srv \<longleftrightarrow>
     (\<exists>k. get_simple_tools_credentials env (user_id srv) (api_key srv) = Inr k)"
  by (auto simp: authenticated_def split: sum.splits)

lemma handle_call_tool_unauthenticated:
  "get_simple_tools_credentials env (user_id srv) (api_key srv) = Inl (ValueError m) \<Longrightarrow>
   handle_call_tool env srv name arguments s =
     (Inr [TextContent ''text'' (Plain (''Authentication error: '' @ m))], s)"
  by (simp add: handle_call_tool_def)

lemma get_simple_tools_credentials_Inl:
  "get_simple_tools_credentials env u key = Inl e \<Longrightarrow> e = handle_missing_credentials env u"
  by (auto simp: get_simple_tools_credentials_def Let_def split: if_splits)

lemma get_simple_tools_credentials_fails_iff:
  "(\<exists>e. get_simple_tools_credentials env u key = Inl e) \<longleftrightarrow>
     (case get_user_credentials env key ''simple-tools'' u of
        CredNone \<Rightarrow> True
      | CredStr x \<Rightarrow> x = []
      | CredDict d \<Rightarrow> map_of d ''api_key'' = None \<or> map_of d ''api_key'' = Some [])"
  by (auto simp: get_simple_tools_credentials_def Let_def truthy_credentials_def truthy_str_def
           split: credentials.splits option.splits)

lemma store_data_valid:
  assumes "authenticated env srv"
    and "arguments_get arguments ''key'' = Some k" and "k \<noteq> []"
    and "arguments_get arguments ''value'' = Some v" and "v \<noteq> []"
  shows "handle_call_tool env srv ''store_data'' arguments s =
           (Inr [TextContent ''text'' (JsonDumps (store_result env k v))],
            if s (user_id srv) \<noteq> None \<or> truthy_str (user_id srv)
            then s(user_id srv \<mapsto> AList.update k v (stores_get s (user_id srv)))
            else s)"
  using assms arguments_get_truthy[OF assms(2)]
  by (auto simp: handle_call_tool_def authenticated_def truthy_str_def Let_def
           split: sum.splits error.splits)

lemma retrieve_data_valid:
  assumes "authenticated env srv"
    and "arguments_get arguments ''key'' = Some k" and "k \<noteq> []"
  shows "handle_call_tool env srv ''retrieve_data'' arguments s =
           (Inr [TextContent ''text''
                   (JsonDumps (case map_of (stores_get s (user_id srv)) k of
                                 None \<Rightarrow> retrieve_not_found_result env k
                               | Some v \<Rightarrow> retrieve_success_result env k v))], s)"
  using assms arguments_get_truthy[OF assms(2)]
  by (auto simp: handle_call_tool_def authenticated_def truthy_str_def Let_def
           split: sum.splits error.splits option.splits)

lemma list_data_authenticated:
  assumes "authenticated env srv"
  shows "handle_call_tool env srv ''list_data'' arguments s =
           (Inr [TextContent ''text''
                   (JsonDumps (if stores_get s (user_id srv) = [] then list_empty_result env
                               else list_success_result env (stores_get s (user_id srv))))], s)"
  using assms
  by (auto simp: handle_call_tool_def authenticated_def Let_def
           split: sum.splits error.splits)

subsection \<open>Which part of the state a call reads and writes\<close>

lemma handle_call_tool_frame:
  "u \<noteq> user_id srv \<Longrightarrow> snd (handle_call_tool env srv name arguments s) u = s u"
  by (auto simp: handle_call_tool_def Let_def split: sum.splits error.splits option.splits)

lemma handle_call_tool_reads_own_table:
  "s1 (user_id srv) = s2 (user_id srv) \<Longrightarrow>
   fst (handle_call_tool env srv name arguments s1) = fst (handle_call_tool env srv name arguments s2)
   \<and> snd (handle_call_tool env srv name arguments s1) (user_id srv)
     = snd (handle_call_tool env srv name arguments s2) (user_id srv)"
  by (auto simp: handle_call_tool_def Let_def stores_get_def
           split: sum.splits error.splits option.splits)

lemma handle_call_tool_not_store:
  "name \<noteq> ''store_data'' \<Longrightarrow> snd (handle_call_tool env srv name arguments s) = s"
  by (auto simp: handle_call_tool_def Let_def split: sum.splits error.splits option.splits)

subsection \<open>What a call does to the state, and what every reachable state satisfies\<close>

lemma not_authenticated:
  "\<not> authenticated env srv \<Longrightarrow> handle_call_tool env srv name arguments s =
     (case handle_missing_credentials env (user_id srv) of ValueError m \<Rightarrow>
       (Inr [TextContent ''text'' (Plain (''Authentication error: '' @ m))], s))"
  by (auto simp: authenticated_def handle_call_tool_def split: sum.splits error.splits
      dest: get_simple_tools_credentials_Inl)

lemma store_data_invalid:
  assumes "authenticated env srv"
    and "\<not> truthy_str (arguments_get arguments ''key'') \<or> \<not> truthy_str (arguments_get arguments ''value'')"
  shows "handle_call_tool env srv ''store_data'' arguments s =
           (Inl (ValueError (if truthy_arguments arguments then ''Missing key or value''
                             else ''Missing arguments'')), s)"
  using assms
  by (auto simp: handle_call_tool_def authenticated_def Let_def
           split: sum.splits error.splits)

lemma retrieve_data_invalid:
  assumes "authenticated env srv"
    and "\<not> truthy_str (arguments_get arguments ''key'')"
  shows "handle_call_tool env srv ''retrieve_data'' arguments s =
           (Inl (ValueError (if truthy_arguments arguments then ''Missing key''
                             else ''Missing arguments'')), s)"
  using assms
  by (auto simp: handle_call_tool_def authenticated_def Let_def
           split: sum.splits error.splits)

lemma unknown_tool_authenticated:
  assumes "authenticated env srv"
    and "name \<noteq> ''store_data''" "name \<noteq> ''retrieve_data''" "name \<noteq> ''list_data''"
  shows "handle_call_tool env srv name arguments s =
           (Inl (ValueError (''Unknown tool: '' @ name)), s)"
  using assms
  by (auto simp: handle_call_tool_def authenticated_def Let_def
           split: sum.splits error.splits)

lemma truthy_str_iff: "truthy_str x \<longleftrightarrow> (\<exists>y. x = Some y \<and> y \<noteq> [])"
  by (cases x) (simp_all add: truthy_str_def)

lemma missing_or_empty_iff: "x \<in> {None, Some []} \<longleftrightarrow> \<not> truthy_str x"
  by (cases x) (simp_all add: truthy_str_def)

lemma handle_call_tool_snd:
  "snd (handle_call_tool env srv name arguments s) = s \<or>
   (\<exists>k v. name = ''store_data'' \<and> arguments_get arguments ''key'' = Some k \<and>
      snd (handle_call_tool env srv name arguments s)
        = s(user_id srv \<mapsto> AList.update k v (stores_get s (user_id srv))) \<and>
      (s (user_id srv) \<noteq> None \<or> truthy_str (user_id srv)))"
proof (cases "name = ''store_data''")
  case False
  then show ?thesis by (simp add: handle_call_tool_not_store)
next
  case store: True
  show ?thesis
  proof (cases "authenticated env srv")
    case False
    then show ?thesis by (simp add: not_authenticated split: error.splits)
  next
    case auth: True
    show ?thesis
    proof (cases "truthy_str (arguments_get arguments ''key'') \<and> truthy_str (arguments_get arguments ''value'')")
      case False
      then show ?thesis using auth store by (simp add: store_data_invalid)
    next
      case True
      then obtain k v where "arguments_get arguments ''key'' = Some k" "k \<noteq> []"
        "arguments_get arguments ''value'' = Some v" "v \<noteq> []"
        by (auto simp: truthy_str_iff)
      then have "snd (handle_call_tool env srv name arguments s)
                   = s(user_id srv \<mapsto> AList.update k v (stores_get s (user_id srv)))
                 \<and> (s (user_id srv) \<noteq> None \<or> truthy_str (user_id srv))
                 \<or> snd (handle_call_tool env srv name arguments s) = s"
        using auth store by (simp add: store_data_valid)
      then show ?thesis using \<open>arguments_get arguments ''key'' = Some k\<close> store by blast
    qed
  qed
qed

lemma stores_get_upd:
  "stores_get (s(u \<mapsto> t)) u' = (if u' = u then t else stores_get s u')"
  by (simp add: stores_get_def)

lemma handle_call_tool_table:
  "stores_get (snd (handle_call_tool env srv name arguments s)) u = stores_get s u \<or>
   (\<exists>k v. name = ''store_data'' \<and> u = user_id srv \<and> arguments_get arguments ''key'' = Some k \<and>
      stores_get (snd (handle_call_tool env srv name arguments s)) u = AList.update k v (stores_get s u))"
  using handle_call_tool_snd[of env srv name arguments s]
  by (cases "u = user_id srv") (auto simp: stores_get_upd)

lemma handle_call_tool_dom:
  "snd (handle_call_tool env srv name arguments s) u \<noteq> None \<Longrightarrow>
   s u \<noteq> None \<or> truthy_str u"
  using handle_call_tool_snd[of env srv name arguments s]
  by (auto split: if_splits)

lemma create_server_table:
  "stores_get (snd (create_server uid key cfg s)) u = stores_get s u"
  by (auto simp: create_server_def stores_get_def split: option.splits)

lemma create_server_dom:
  "snd (create_server uid key cfg s) u \<noteq> None \<Longrightarrow> s u \<noteq> None \<or> truthy_str u"
  by (auto simp: create_server_def split: option.splits if_splits)

lemma reachable_invariant:
  "reachable s \<Longrightarrow> (\<forall>u. s u \<noteq> None \<longrightarrow> truthy_str u) \<and> (\<forall>u. distinct (map fst (stores_get s u)))"
proof (induction rule: reachable.induct)
  case initial
  show ?case by (simp add: initial_stores_def stores_get_def)
next
  case (created s uid key cfg)
  then show ?case
    using create_server_dom[of uid key cfg s] by (auto simp: create_server_table)
next
  case (called s env srv name arguments)
  have "distinct (map fst (stores_get (snd (handle_call_tool env srv name arguments s)) u))" for u
    using handle_call_tool_table[of env srv name arguments s u] called.IH
    by (auto simp: distinct_update)
  moreover have "truthy_str u" if "snd (handle_call_tool env srv name arguments s) u \<noteq> None" for u
    using that handle_call_tool_dom[of env srv name arguments s u] called.IH by auto
  ultimately show ?case by blast
qed

lemma never_stored_absent:
  "never_stored u k s \<Longrightarrow> map_of (stores_get s u) k = None"
proof (induction rule: never_stored.induct)
  case initial
  show ?case by (simp add: initial_stores_def stores_get_def)
next
  case (created s uid key cfg)
  then show ?case by (simp add: create_server_table)
next
  case (called s name srv arguments env)
  show ?case
    using handle_call_tool_table[of env srv name arguments s u] called.IH called.hyps(2)
    by (auto simp: update_conv')
qed

subsection \<open>Runs of calls and the concrete surroundings\<close>

lemma run_calls_frame:
  "\<forall>c \<in> set calls. caller c \<noteq> u \<Longrightarrow> run_calls calls s u = s u"
proof (induction calls arbitrary: s)
  case Nil
  show ?case by simp
next
  case (Cons c calls)
  obtain env srv name arguments where c: "c = Call env srv name arguments"
    by (cases c)
  with Cons.prems have "u \<noteq> user_id srv" by auto
  then have "snd (handle_call_tool env srv name arguments s) u = s u"
    by (rule handle_call_tool_frame)
  with Cons c show ?case by simp
qed

lemmas example_defs =
  env_with_key_def env_without_key_def alice_def alice_stores_def bob_def bob_stores_def
  nobody_def nobody_stores_def create_server_def initial_stores_def

lemma example_simps:
  "get_user_credentials env_with_key key service u = CredDict [(''api_key'', ''secret'')]"
  "get_user_credentials env_without_key key service u = CredNone"
  "ENVIRONMENT env_with_key = None" "ENVIRONMENT env_without_key = None"
  "uuid4_hex env_with_key = ''0123456789abcdef0123456789abcdef''"
  "uuid4_hex env_without_key = ''0123456789abcdef0123456789abcdef''"
  "time_time env_with_key = 1640995200" "time_time env_without_key = 1640995200"
  "user_id alice = Some ''alice''" "user_id bob = Some ''bob''" "user_id nobody = Some []"
  "api_key alice = None" "api_key bob = None" "api_key nobody = None"
  by (simp_all add: example_defs)

lemma authenticated_env_with_key: "authenticated env_with_key srv"
  by (simp add: authenticated_def get_simple_tools_credentials_def env_with_key_def
        truthy_credentials_def truthy_str_def)

lemma not_authenticated_env_without_key: "\<not> authenticated env_without_key srv"
  by (simp add: authenticated_def get_simple_tools_credentials_def env_without_key_def
        truthy_credentials_def)

subsection \<open>Tables after storing\<close>

lemma store_data_table:
  assumes "authenticated env srv"
    and "arguments_get arguments ''key'' = Some k" and "k \<noteq> []"
    and "arguments_get arguments ''value'' = Some v" and "v \<noteq> []"
    and "truthy_str (user_id srv)"
  shows "stores_get (snd (handle_call_tool env srv ''store_data'' arguments s)) (user_id srv)
           = AList.update k v (stores_get s (user_id srv))"
  using assms by (simp add: store_data_valid stores_get_upd)

lemma store_data_not_saved:
  assumes "authenticated env srv"
    and "arguments_get arguments ''key'' = Some k" and "k \<noteq> []"
    and "arguments_get arguments ''value'' = Some v" and "v \<noteq> []"
    and "\<not> truthy_str (user_id srv)" and "s (user_id srv) = None"
  shows "snd (handle_call_tool env srv ''store_data'' arguments s) = s"
  using assms by (simp add: store_data_valid)

lemma update_fresh: "k \<notin> fst ` set t \<Longrightarrow> AList.update k v t = t @ [(k, v)]"
  by (induction t) auto

lemma update_single_entry:
  "distinct (map fst t) \<Longrightarrow> length (filter (\<lambda>p. fst p = k) (AList.update k v t)) = 1"
proof (induction t)
  case Nil
  show ?case by simp
next
  case (Cons p t)
  show ?case
  proof (cases "fst p = k")
    case True
    with Cons.prems have "k \<notin> fst ` set t" by auto
    then have "filter (\<lambda>p. fst p = k) t = []"
      by (auto simp: filter_empty_conv)
    with True show ?thesis by simp
  next
    case False
    with Cons show ?thesis by simp
  qed
qed

lemma store_each_table:
  assumes "truthy_str (user_id srv)"
  shows "\<forall>c \<in> set calls. authenticated (fst c) srv \<and> fst (snd c) \<noteq> [] \<and> snd (snd c) \<noteq> [] \<Longrightarrow>
         distinct (map (\<lambda>c. fst (snd c)) calls) \<Longrightarrow>
         fst ` set (stores_get s (user_id srv)) \<inter> (\<lambda>c. fst (snd c)) ` set calls = {} \<Longrightarrow>
         stores_get (store_each srv calls s) (user_id srv)
           = stores_get s (user_id srv) @ map snd calls"
proof (induction calls arbitrary: s)
  case Nil
  show ?case by simp
next
  case (Cons c calls)
  let ?s' = "snd (handle_call_tool (fst c) srv ''store_data''
                    (Some [(''key'', fst (snd c)), (''value'', snd (snd c))]) s)"
  from Cons.prems(1) have c: "authenticated (fst c) srv" "fst (snd c) \<noteq> []" "snd (snd c) \<noteq> []"
    by auto
  have fresh: "fst (snd c) \<notin> fst ` set (stores_get s (user_id srv))"
    using Cons.prems(3) by auto
  have "stores_get ?s' (user_id srv)
          = AList.update (fst (snd c)) (snd (snd c)) (stores_get s (user_id srv))"
    using c assms by (intro store_data_table) (simp_all add: arguments_get_def)
  then have s': "stores_get ?s' (user_id srv) = stores_get s (user_id srv) @ [snd c]"
    using fresh by (simp add: update_fresh)
  have "fst ` set (stores_get ?s' (user_id srv)) \<inter> (\<lambda>c. fst (snd c)) ` set calls = {}"
    using Cons.prems(2,3) unfolding s' by auto
  with Cons.prems have "stores_get (store_each srv calls ?s') (user_id srv)
          = stores_get ?s' (user_id srv) @ map snd calls"
    by (intro Cons.IH) simp_all
  then show ?case by (simp add: s')
qed

section \<open>The claims\<close>

subsection \<open>C1: storing, then retrieving\<close>

text \<open>
  C1, as amended. For every user whose identifier is a non-empty string and every
  non-empty key and value, given that authentication succeeds for both calls,
  \<^verbatim>\<open>store_data(key, value)\<close> followed by \<^verbatim>\<open>retrieve_data(key)\<close> for the same user (on the
  same server object or on another one of that user) returns the success record whose
  \<^verbatim>\<open>value\<close> field is the stored value.
\<close>

theorem store_then_retrieve_returns_the_value:
  assumes "truthy_str (user_id srv1)" and "user_id srv2 = user_id srv1"
    and "authenticated env1 srv1" and "authenticated env2 srv2"
    and "arguments_get args1 ''key'' = Some k" and "k \<noteq> []"
    and "arguments_get args1 ''value'' = Some v" and "v \<noteq> []"
    and "arguments_get args2 ''key'' = Some k"
  shows "fst (handle_call_tool env2 srv2 ''retrieve_data'' args2
               (snd (handle_call_tool env1 srv1 ''store_data'' args1 s)))
           = Inr [TextContent ''text'' (JsonDumps (retrieve_success_result env2 k v))]
       \<and> result_field ''status''
           (fst (handle_call_tool env2 srv2 ''retrieve_data'' args2
                  (snd (handle_call_tool env1 srv1 ''store_data'' args1 s))))
           = Some (JString ''success'')
       \<and> result_field ''value''
           (fst (handle_call_tool env2 srv2 ''retrieve_data'' args2
                  (snd (handle_call_tool env1 srv1 ''store_data'' args1 s))))
           = Some (JString v)"
proof -
  let ?s' = "snd (handle_call_tool env1 srv1 ''store_data'' args1 s)"
  have "stores_get ?s' (user_id srv1) = AList.update k v (stores_get s (user_id srv1))"
    using assms by (intro store_data_table)
  then have "map_of (stores_get ?s' (user_id srv2)) k = Some v"
    using assms(2) by (simp add: update_conv')
  then have "fst (handle_call_tool env2 srv2 ''retrieve_data'' args2 ?s')
           = Inr [TextContent ''text'' (JsonDumps (retrieve_success_result env2 k v))]"
    using assms by (simp add: retrieve_data_valid)
  then show ?thesis by (simp add: retrieve_success_result_def)
qed

theorem store_then_retrieve_returns_the_value_witness:
  "result_field ''value''
     (fst (handle_call_tool env_with_key alice ''retrieve_data'' (Some [(''key'', ''test_key'')])
            (snd (handle_call_tool env_with_key alice ''store_data''
                    (Some [(''key'', ''test_key''), (''value'', ''test_value'')]) alice_stores))))
     = Some (JString ''test_value'')"
  using store_then_retrieve_returns_the_value
          [where ?srv1.0 = alice and ?srv2.0 = alice
             and ?env1.0 = env_with_key and ?env2.0 = env_with_key
             and ?args1.0 = "Some [(''key'', ''test_key''), (''value'', ''test_value'')]"
             and ?args2.0 = "Some [(''key'', ''test_key'')]"
             and k = "''test_key''" and v = "''test_value''" and s = alice_stores]
  by (simp add: authenticated_env_with_key example_simps truthy_str_def arguments_get_def
        retrieve_success_result_def)

text \<open>
  C1 as stated, for every user, fails for the user identifier \<^verbatim>\<open>""\<close>: \<^verbatim>\<open>create_server("")\<close>
  files no table, the handler works on a fresh dictionary, and the guard
  \<^verbatim>\<open>if current_user:\<close> keeps that dictionary out of \<^verbatim>\<open>user_data_stores\<close>. Authentication
  succeeds and the store call returns its success record, yet the retrieval that follows
  answers \<^verbatim>\<open>not_found\<close>.
\<close>

theorem store_then_retrieve_empty_user_counterexample:
  "authenticated env_with_key nobody
   \<and> fst (handle_call_tool env_with_key nobody ''retrieve_data'' (Some [(''key'', ''test_key'')])
            (snd (handle_call_tool env_with_key nobody ''store_data''
                    (Some [(''key'', ''test_key''), (''value'', ''test_value'')]) nobody_stores)))
     = Inr [TextContent ''text'' (JsonDumps (retrieve_not_found_result env_with_key ''test_key''))]"
proof -
  have n: "nobody_stores (user_id nobody) = None" "\<not> truthy_str (user_id nobody)"
    by (simp_all add: example_defs truthy_str_def)
  have "snd (handle_call_tool env_with_key nobody ''store_data''
                    (Some [(''key'', ''test_key''), (''value'', ''test_value'')]) nobody_stores)
          = nobody_stores"
    using n by (intro store_data_not_saved[where k="''test_key''" and v="''test_value''"])
               (simp_all add: authenticated_env_with_key arguments_get_def)
  then show ?thesis
    using n by (simp add: authenticated_env_with_key retrieve_data_valid arguments_get_def stores_get_def)
qed

subsection \<open>C2: a failed credential lookup\<close>

text \<open>
  C2. When the credential lookup fails for the calling user (the auth client returns
  nothing, an empty string or an empty object, or an object whose \<^verbatim>\<open>api_key\<close> is absent or
  empty), a call of any tool name, so of each of the three tools, does not raise: it returns
  one text block reading \<^verbatim>\<open>Authentication error: \<close> followed by the message of
  \<^verbatim>\<open>handle_missing_credentials\<close>, and \<^verbatim>\<open>user_data_stores\<close> is what it was.
\<close>

theorem failed_authentication_answers_with_text:
  assumes "case get_user_credentials env (api_key srv) ''simple-tools'' (user_id srv) of
             CredNone \<Rightarrow> True
           | CredStr x \<Rightarrow> x = []
           | CredDict d \<Rightarrow> map_of d ''api_key'' = None \<or> map_of d ''api_key'' = Some []"
  shows "\<exists>m. handle_missing_credentials env (user_id srv) = ValueError m \<and>
             handle_call_tool env srv name arguments s =
               (Inr [TextContent ''text'' (Plain (''Authentication error: '' @ m))], s)"
proof -
  from assms obtain e where e: "get_simple_tools_credentials env (user_id srv) (api_key srv) = Inl e"
    using get_simple_tools_credentials_fails_iff[of env "user_id srv" "api_key srv"] by blast
  then have "e = handle_missing_credentials env (user_id srv)"
    by (rule get_simple_tools_credentials_Inl)
  moreover obtain m where "e = ValueError m" by (cases e)
  ultimately show ?thesis
    using e handle_call_tool_unauthenticated[of env srv m name arguments s] by simp
qed

theorem failed_authentication_answers_with_text_witness:
  "handle_call_tool env_without_key alice ''store_data''
       (Some [(''key'', ''test_key''), (''value'', ''test_value'')]) alice_stores =
     (Inr [TextContent ''text''
             (Plain ''Authentication error: Simple Tools API key not found for user alice. Please run authentication first.'')],
      alice_stores)"
  using failed_authentication_answers_with_text
          [of env_without_key alice "''store_data''"
              "Some [(''key'', ''test_key''), (''value'', ''test_value'')]" alice_stores]
  by (simp add: example_simps handle_missing_credentials_def str_user_def)

subsection \<open>C3: retrieving a key that was never stored\<close>

text \<open>
  C3. For an authenticated user and a non-empty key that no \<^verbatim>\<open>store_data\<close> call of that
  user has carried since the module was loaded, \<^verbatim>\<open>retrieve_data\<close> does not raise and
  returns the record with status \<^verbatim>\<open>not_found\<close>.
\<close>

theorem retrieve_of_never_stored_key_is_not_found:
  assumes "never_stored (user_id srv) k s"
    and "authenticated env srv"
    and "arguments_get arguments ''key'' = Some k" and "k \<noteq> []"
  shows "handle_call_tool env srv ''retrieve_data'' arguments s =
           (Inr [TextContent ''text'' (JsonDumps (retrieve_not_found_result env k))], s)
       \<and> result_field ''status'' (fst (handle_call_tool env srv ''retrieve_data'' arguments s))
           = Some (JString ''not_found'')
       \<and> \<not> raised (fst (handle_call_tool env srv ''retrieve_data'' arguments s))"
  using assms never_stored_absent[OF assms(1)]
  by (simp add: retrieve_data_valid retrieve_not_found_result_def)

theorem retrieve_of_never_stored_key_is_not_found_witness:
  "result_field ''status''
     (fst (handle_call_tool env_with_key alice ''retrieve_data'' (Some [(''key'', ''nonexistent_key'')])
        (snd (handle_call_tool env_with_key alice ''store_data''
               (Some [(''key'', ''test_key''), (''value'', ''test_value'')]) alice_stores))))
     = Some (JString ''not_found'')"
proof -
  let ?s = "snd (handle_call_tool env_with_key alice ''store_data''
               (Some [(''key'', ''test_key''), (''value'', ''test_value'')]) alice_stores)"
  have "never_stored (Some ''alice'') ''nonexistent_key'' alice_stores"
    unfolding alice_stores_def by (intro never_stored.created never_stored.initial)
  then have "never_stored (user_id alice) ''nonexistent_key'' ?s"
    by (simp add: example_simps arguments_get_def never_stored.called)
  from retrieve_of_never_stored_key_is_not_found[OF this authenticated_env_with_key,
        of "Some [(''key'', ''nonexistent_key'')]"]
  show ?thesis by (simp add: arguments_get_def retrieve_not_found_result_def)
qed

subsection \<open>C4: listing\<close>

text \<open>
  C4, as amended. For an authenticated user with zero stored keys, \<^verbatim>\<open>list_data\<close> returns
  the record with status \<^verbatim>\<open>empty\<close>, count 0 and empty data. If moreover the user's
  identifier is a non-empty string, then after \<open>N \<ge> 1\<close> authenticated \<^verbatim>\<open>store_data\<close> calls
  with pairwise distinct non-empty keys and non-empty values, the user's table consists of
  exactly those \<open>N\<close> entries in the order of the calls, and \<^verbatim>\<open>list_data\<close> for that user
  returns status \<^verbatim>\<open>success\<close>, count \<open>N\<close> and those entries as data.
\<close>

theorem list_data_reports_what_was_stored:
  assumes "authenticated env srv" and "authenticated env' srv'"
    and "user_id srv' = user_id srv"
    and "stores_get s (user_id srv) = []"
  shows "fst (handle_call_tool env srv ''list_data'' arguments s)
           = Inr [TextContent ''text'' (JsonDumps (list_empty_result env))]
       \<and> result_field ''status'' (fst (handle_call_tool env srv ''list_data'' arguments s))
           = Some (JString ''empty'')
       \<and> result_field ''count'' (fst (handle_call_tool env srv ''list_data'' arguments s))
           = Some (JInt 0)
       \<and> result_field ''data'' (fst (handle_call_tool env srv ''list_data'' arguments s))
           = Some (JObject [])
       \<and> (truthy_str (user_id srv) \<and> calls \<noteq> [] \<and>
            (\<forall>c \<in> set calls. authenticated (fst c) srv \<and> fst (snd c) \<noteq> [] \<and> snd (snd c) \<noteq> []) \<and>
            distinct (map (\<lambda>c. fst (snd c)) calls) \<longrightarrow>
            stores_get (store_each srv calls s) (user_id srv) = map snd calls
            \<and> result_field ''status''
                (fst (handle_call_tool env' srv' ''list_data'' arguments' (store_each srv calls s)))
                = Some (JString ''success'')
            \<and> result_field ''count''
                (fst (handle_call_tool env' srv' ''list_data'' arguments' (store_each srv calls s)))
                = Some (JInt (int (length calls)))
            \<and> result_field ''data''
                (fst (handle_call_tool env' srv' ''list_data'' arguments' (store_each srv calls s)))
                = Some (JObject (map (\<lambda>c. (fst (snd c), JString (snd (snd c)))) calls)))"
proof -
  have empty: "fst (handle_call_tool env srv ''list_data'' arguments s)
           = Inr [TextContent ''text'' (JsonDumps (list_empty_result env))]"
    using assms by (simp add: list_data_authenticated)
  have stored: "stores_get (store_each srv calls s) (user_id srv) = map snd calls"
    if "truthy_str (user_id srv)"
      and "\<forall>c \<in> set calls. authenticated (fst c) srv \<and> fst (snd c) \<noteq> [] \<and> snd (snd c) \<noteq> []"
      and "distinct (map (\<lambda>c. fst (snd c)) calls)"
    using store_each_table[OF that(1,2,3), of s] assms(4) by simp
  have listed: "fst (handle_call_tool env' srv' ''list_data'' arguments' (store_each srv calls s))
           = Inr [TextContent ''text'' (JsonDumps (list_success_result env' (map snd calls)))]"
    if "stores_get (store_each srv calls s) (user_id srv) = map snd calls" and "calls \<noteq> []"
    using that assms(2,3) by (simp add: list_data_authenticated)
  show ?thesis
    using empty stored listed
    by (auto simp: list_empty_result_def list_success_result_def comp_def)
qed

theorem list_data_reports_what_was_stored_witness:
  "result_field ''status'' (fst (handle_call_tool env_with_key alice ''list_data'' None alice_stores))
     = Some (JString ''empty'')
   \<and> result_field ''count''
       (fst (handle_call_tool env_with_key alice ''list_data'' None
          (store_each alice
             [(env_with_key, ''test_key'', ''test_value''),
              (env_with_key, ''another_key'', ''another_value'')] alice_stores)))
     = Some (JInt 2)
   \<and> result_field ''data''
       (fst (handle_call_tool env_with_key alice ''list_data'' None
          (store_each alice
             [(env_with_key, ''test_key'', ''test_value''),
              (env_with_key, ''another_key'', ''another_value'')] alice_stores)))
     = Some (JObject [(''test_key'', JString ''test_value''),
                      (''another_key'', JString ''another_value'')])"
proof -
  have t: "stores_get alice_stores (user_id alice) = []"
    by (simp add: example_defs stores_get_def truthy_str_def)
  show ?thesis
    using list_data_reports_what_was_stored
            [OF authenticated_env_with_key authenticated_env_with_key refl t,
             where calls = "[(env_with_key, ''test_key'', ''test_value''),
                             (env_with_key, ''another_key'', ''another_value'')]"
               and arguments = None and arguments' = None]
    by (auto simp: authenticated_env_with_key example_simps truthy_str_def simp del: store_each.simps)
qed

text \<open>
  C4 as stated, for an authenticated user, fails for the user identifier \<^verbatim>\<open>""\<close>: the
  user has zero stored keys, one key is stored with success, and \<^verbatim>\<open>list_data\<close> still
  answers with the \<^verbatim>\<open>empty\<close> record, whose count is 0.
\<close>

theorem list_data_empty_user_counterexample:
  "authenticated env_with_key nobody
   \<and> stores_get nobody_stores (user_id nobody) = []
   \<and> fst (handle_call_tool env_with_key nobody ''list_data'' None
          (store_each nobody [(env_with_key, ''test_key'', ''test_value'')] nobody_stores))
     = Inr [TextContent ''text'' (JsonDumps (list_empty_result env_with_key))]"
proof -
  have n: "nobody_stores (user_id nobody) = None" "\<not> truthy_str (user_id nobody)"
    by (simp_all add: example_defs truthy_str_def)
  have "snd (handle_call_tool env_with_key nobody ''store_data''
                    (Some [(''key'', ''test_key''), (''value'', ''test_value'')]) nobody_stores)
          = nobody_stores"
    using n by (intro store_data_not_saved[where k="''test_key''" and v="''test_value''"])
               (simp_all add: authenticated_env_with_key arguments_get_def)
  then show ?thesis
    using n by (simp add: authenticated_env_with_key list_data_authenticated stores_get_def)
qed

subsection \<open>C5: users do not see each other's tables\<close>

text \<open>
  C5. Let the calls of a run all be made by users other than \<open>b\<close>, whatever the tools
  and arguments. The run leaves the table of \<open>b\<close> as it was, and any tool call of \<open>b\<close>
  after the run (in particular \<^verbatim>\<open>retrieve_data\<close> and \<^verbatim>\<open>list_data\<close>) returns what it would
  have returned before the run and leaves the same table for \<open>b\<close>. More generally the
  outcome of a call of \<open>b\<close> depends on the stores only through the table of \<open>b\<close>.
\<close>

theorem tables_of_distinct_users_are_isolated:
  assumes "\<forall>c \<in> set calls. caller c \<noteq> user_id b"
  shows "run_calls calls s (user_id b) = s (user_id b)
       \<and> fst (handle_call_tool env b name arguments (run_calls calls s))
           = fst (handle_call_tool env b name arguments s)
       \<and> snd (handle_call_tool env b name arguments (run_calls calls s)) (user_id b)
           = snd (handle_call_tool env b name arguments s) (user_id b)
       \<and> (\<forall>s'. s' (user_id b) = s (user_id b) \<longrightarrow>
             fst (handle_call_tool env b name arguments s')
               = fst (handle_call_tool env b name arguments s))"
  using run_calls_frame[OF assms, of s]
    handle_call_tool_reads_own_table[of _ b _ env name arguments]
  by blast

theorem tables_of_distinct_users_are_isolated_witness:
  "fst (handle_call_tool env_with_key bob ''retrieve_data'' (Some [(''key'', ''test_key'')])
          (run_calls [Call env_with_key alice ''store_data''
                        (Some [(''key'', ''test_key''), (''value'', ''test_value'')])] bob_stores))
     = Inr [TextContent ''text'' (JsonDumps (retrieve_not_found_result env_with_key ''test_key''))]
   \<and> fst (handle_call_tool env_with_key bob ''list_data'' None
          (run_calls [Call env_with_key alice ''store_data''
                        (Some [(''key'', ''test_key''), (''value'', ''test_value'')])] bob_stores))
     = Inr [TextContent ''text'' (JsonDumps (list_empty_result env_with_key))]"
proof -
  let ?calls = "[Call env_with_key alice ''store_data''
                        (Some [(''key'', ''test_key''), (''value'', ''test_value'')])]"
  have d: "\<forall>c \<in> set ?calls. caller c \<noteq> user_id bob"
    by (simp add: example_simps)
  have t: "stores_get bob_stores (user_id bob) = []"
    by (simp add: example_defs stores_get_def truthy_str_def)
  show ?thesis
    using tables_of_distinct_users_are_isolated[OF d, of bob_stores env_with_key "''retrieve_data''" "Some [(''key'', ''test_key'')]"]
      tables_of_distinct_users_are_isolated[OF d, of bob_stores env_with_key "''list_data''" None]
    by (simp add: retrieve_data_valid list_data_authenticated authenticated_env_with_key t arguments_get_def del: run_calls.simps)
qed

subsection \<open>C6: storing a key twice\<close>

text \<open>
  C6, as amended. For every authenticated user whose identifier is a non-empty string,
  in every state the module can reach, storing the same key twice (values \<open>v1\<close>, then
  \<open>v2\<close>; on one server object of the user or on several) overwrites the entry: the retrieval that follows returns the success record with
  value \<open>v2\<close>, the user's table holds exactly one entry for the key, and the table is the
  one a single store of \<open>v2\<close> would have produced.
\<close>

theorem storing_a_key_twice_keeps_the_latest_value:
  assumes "reachable s" and "truthy_str (user_id srv)"
    and "user_id srv2 = user_id srv" and "user_id srv3 = user_id srv"
    and "authenticated env1 srv" and "authenticated env2 srv2" and "authenticated env3 srv3"
    and "arguments_get args1 ''key'' = Some k" and "k \<noteq> []"
    and "arguments_get args1 ''value'' = Some v1" and "v1 \<noteq> []"
    and "arguments_get args2 ''key'' = Some k"
    and "arguments_get args2 ''value'' = Some v2" and "v2 \<noteq> []"
    and "arguments_get args3 ''key'' = Some k"
    and "s2 = snd (handle_call_tool env2 srv2 ''store_data'' args2
                     (snd (handle_call_tool env1 srv ''store_data'' args1 s)))"
  shows "fst (handle_call_tool env3 srv3 ''retrieve_data'' args3 s2)
           = Inr [TextContent ''text'' (JsonDumps (retrieve_success_result env3 k v2))]
       \<and> result_field ''value'' (fst (handle_call_tool env3 srv3 ''retrieve_data'' args3 s2))
           = Some (JString v2)
       \<and> length (filter (\<lambda>p. fst p = k) (stores_get s2 (user_id srv))) = 1
       \<and> stores_get s2 (user_id srv) = AList.update k v2 (stores_get s (user_id srv))"
proof -
  let ?s1 = "snd (handle_call_tool env1 srv ''store_data'' args1 s)"
  have t1: "stores_get ?s1 (user_id srv) = AList.update k v1 (stores_get s (user_id srv))"
    using assms by (intro store_data_table)
  have "stores_get s2 (user_id srv2) = AList.update k v2 (stores_get ?s1 (user_id srv2))"
    unfolding \<open>s2 = _\<close> using assms by (intro store_data_table) simp_all
  then have t2: "stores_get s2 (user_id srv) = AList.update k v2 (stores_get s (user_id srv))"
    using assms(3) by (simp add: t1)
  have "distinct (map fst (stores_get s (user_id srv)))"
    using reachable_invariant[OF \<open>reachable s\<close>] by blast
  then have one: "length (filter (\<lambda>p. fst p = k) (stores_get s2 (user_id srv))) = 1"
    unfolding t2 by (rule update_single_entry)
  have "map_of (stores_get s2 (user_id srv3)) k = Some v2"
    using assms(4) by (simp add: t2 update_conv')
  then have "fst (handle_call_tool env3 srv3 ''retrieve_data'' args3 s2)
           = Inr [TextContent ''text'' (JsonDumps (retrieve_success_result env3 k v2))]"
    using assms by (simp add: retrieve_data_valid)
  then show ?thesis using one t2 by (simp add: retrieve_success_result_def)
qed

theorem storing_a_key_twice_keeps_the_latest_value_witness:
  "result_field ''value''
     (fst (handle_call_tool env_with_key alice ''retrieve_data'' (Some [(''key'', ''test_key'')])
        (snd (handle_call_tool env_with_key alice ''store_data''
                (Some [(''key'', ''test_key''), (''value'', ''another_value'')])
           (snd (handle_call_tool env_with_key alice ''store_data''
                   (Some [(''key'', ''test_key''), (''value'', ''test_value'')]) alice_stores))))))
     = Some (JString ''another_value'')
   \<and> stores_get
        (snd (handle_call_tool env_with_key alice ''store_data''
                (Some [(''key'', ''test_key''), (''value'', ''another_value'')])
           (snd (handle_call_tool env_with_key alice ''store_data''
                   (Some [(''key'', ''test_key''), (''value'', ''test_value'')]) alice_stores))))
        (user_id alice)
     = [(''test_key'', ''another_value'')]"
proof -
  have r: "reachable alice_stores"
    unfolding alice_stores_def by (intro reachable.created reachable.initial)
  have t: "stores_get alice_stores (Some ''alice'') = []"
    by (simp add: example_defs stores_get_def truthy_str_def)
  show ?thesis
    using storing_a_key_twice_keeps_the_latest_value
            [where s = alice_stores and srv = alice and ?srv2.0 = alice and ?srv3.0 = alice
               and ?env1.0 = env_with_key and ?env2.0 = env_with_key and ?env3.0 = env_with_key
               and ?args1.0 = "Some [(''key'', ''test_key''), (''value'', ''test_value'')]"
               and ?args2.0 = "Some [(''key'', ''test_key''), (''value'', ''another_value'')]"
               and ?args3.0 = "Some [(''key'', ''test_key'')]"
               and k = "''test_key''" and ?v1.0 = "''test_value''" and ?v2.0 = "''another_value''",
             OF r _ refl refl
                authenticated_env_with_key authenticated_env_with_key authenticated_env_with_key]
    by (auto simp: example_simps truthy_str_def arguments_get_def t)
qed

text \<open>
  C6 as stated, for every authenticated user, fails for the user identifier \<^verbatim>\<open>""\<close>:
  neither store call reaches \<^verbatim>\<open>user_data_stores\<close>, and the retrieval answers
  \<^verbatim>\<open>not_found\<close> instead of the latest value.
\<close>

theorem storing_a_key_twice_empty_user_counterexample:
  "authenticated env_with_key nobody
   \<and> fst (handle_call_tool env_with_key nobody ''retrieve_data'' (Some [(''key'', ''test_key'')])
        (snd (handle_call_tool env_with_key nobody ''store_data''
                (Some [(''key'', ''test_key''), (''value'', ''another_value'')])
           (snd (handle_call_tool env_with_key nobody ''store_data''
                   (Some [(''key'', ''test_key''), (''value'', ''test_value'')]) nobody_stores)))))
     = Inr [TextContent ''text'' (JsonDumps (retrieve_not_found_result env_with_key ''test_key''))]"
proof -
  have n: "nobody_stores (user_id nobody) = None" "\<not> truthy_str (user_id nobody)"
    by (simp_all add: example_defs truthy_str_def)
  have "snd (handle_call_tool env_with_key nobody ''store_data''
                    (Some [(''key'', ''test_key''), (''value'', ''test_value'')]) nobody_stores)
          = nobody_stores"
    using n by (intro store_data_not_saved[where k="''test_key''" and v="''test_value''"])
               (simp_all add: authenticated_env_with_key arguments_get_def)
  moreover have "snd (handle_call_tool env_with_key nobody ''store_data''
                    (Some [(''key'', ''test_key''), (''value'', ''another_value'')]) nobody_stores)
          = nobody_stores"
    using n by (intro store_data_not_saved[where k="''test_key''" and v="''another_value''"])
               (simp_all add: authenticated_env_with_key arguments_get_def)
  ultimately show ?thesis
    using n by (simp add: authenticated_env_with_key retrieve_data_valid arguments_get_def stores_get_def)
qed

subsection \<open>C7: an unknown tool name\<close>

text \<open>
  C7, as amended. Once authentication has succeeded, a tool name other than
  \<^verbatim>\<open>store_data\<close>, \<^verbatim>\<open>retrieve_data\<close> and \<^verbatim>\<open>list_data\<close> makes the handler raise
  \<^verbatim>\<open>ValueError("Unknown tool: <name>")\<close>, with the stores unchanged.
\<close>

theorem unknown_tool_raises_once_authenticated:
  assumes "authenticated env srv"
    and "name \<notin> {''store_data'', ''retrieve_data'', ''list_data''}"
  shows "handle_call_tool env srv name arguments s =
           (Inl (ValueError (''Unknown tool: '' @ name)), s)"
  using assms by (simp add: unknown_tool_authenticated)

theorem unknown_tool_raises_once_authenticated_witness:
  "handle_call_tool env_with_key alice ''delete_data'' None alice_stores =
     (Inl (ValueError ''Unknown tool: delete_data''), alice_stores)"
  using unknown_tool_raises_once_authenticated
          [of env_with_key alice "''delete_data''" None alice_stores]
  by (simp add: authenticated_env_with_key)

text \<open>
  C7 as stated, without the condition on authentication, fails: the credential check
  comes before the dispatch on the name, so for a user without credentials the unknown
  name \<^verbatim>\<open>delete_data\<close> is answered with the authentication text and nothing is raised.
\<close>

theorem unknown_tool_unauthenticated_counterexample:
  "handle_call_tool env_without_key alice ''delete_data'' None alice_stores =
     (Inr [TextContent ''text''
             (Plain ''Authentication error: Simple Tools API key not found for user alice. Please run authentication first.'')],
      alice_stores)"
  by (simp add: not_authenticated not_authenticated_env_without_key
        handle_missing_credentials_def str_user_def example_simps)

subsection \<open>C8: missing or empty arguments\<close>

text \<open>
  C8. Given that authentication succeeds, \<^verbatim>\<open>store_data\<close> raises exactly when \<^verbatim>\<open>key\<close> or
  \<^verbatim>\<open>value\<close> is missing (no argument object, or no such entry in it) or empty, and
  \<^verbatim>\<open>retrieve_data\<close> raises exactly when \<^verbatim>\<open>key\<close> is missing or empty. What is raised is a
  \<^verbatim>\<open>ValueError\<close> with one of the handler's \<^verbatim>\<open>Missing ...\<close> messages, and a call that does
  not raise returns one text block carrying a serialised result dictionary.
\<close>

theorem missing_or_empty_arguments_raise:
  assumes "authenticated env srv"
  shows "(raised (fst (handle_call_tool env srv ''store_data'' arguments s)) \<longleftrightarrow>
            arguments_get arguments ''key'' \<in> {None, Some []} \<or>
            arguments_get arguments ''value'' \<in> {None, Some []})
       \<and> (raised (fst (handle_call_tool env srv ''retrieve_data'' arguments s)) \<longleftrightarrow>
            arguments_get arguments ''key'' \<in> {None, Some []})
       \<and> (raised (fst (handle_call_tool env srv ''store_data'' arguments s)) \<longrightarrow>
            fst (handle_call_tool env srv ''store_data'' arguments s)
              \<in> {Inl (ValueError ''Missing arguments''), Inl (ValueError ''Missing key or value'')})
       \<and> (raised (fst (handle_call_tool env srv ''retrieve_data'' arguments s)) \<longrightarrow>
            fst (handle_call_tool env srv ''retrieve_data'' arguments s)
              \<in> {Inl (ValueError ''Missing arguments''), Inl (ValueError ''Missing key'')})
       \<and> (\<not> raised (fst (handle_call_tool env srv ''store_data'' arguments s)) \<longrightarrow>
            (\<exists>r. fst (handle_call_tool env srv ''store_data'' arguments s)
                   = Inr [TextContent ''text'' (JsonDumps (JObject r))]))
       \<and> (\<not> raised (fst (handle_call_tool env srv ''retrieve_data'' arguments s)) \<longrightarrow>
            (\<exists>r. fst (handle_call_tool env srv ''retrieve_data'' arguments s)
                   = Inr [TextContent ''text'' (JsonDumps (JObject r))]))"
proof -
  let ?k = "arguments_get arguments ''key''" and ?v = "arguments_get arguments ''value''"
  have store: "fst (handle_call_tool env srv ''store_data'' arguments s) =
      (if truthy_str ?k \<and> truthy_str ?v
       then Inr [TextContent ''text'' (JsonDumps (store_result env (the ?k) (the ?v)))]
       else Inl (ValueError (if truthy_arguments arguments then ''Missing key or value''
                             else ''Missing arguments'')))"
  proof (cases "truthy_str ?k \<and> truthy_str ?v")
    case True
    then obtain k v where "?k = Some k" "k \<noteq> []" "?v = Some v" "v \<noteq> []"
      by (auto simp: truthy_str_iff)
    then show ?thesis using assms True by (simp add: store_data_valid)
  next
    case False
    then show ?thesis using assms by (simp add: store_data_invalid)
  qed
  have retrieve: "fst (handle_call_tool env srv ''retrieve_data'' arguments s) =
      (if truthy_str ?k
       then Inr [TextContent ''text''
                   (JsonDumps (case map_of (stores_get s (user_id srv)) (the ?k) of
                                 None \<Rightarrow> retrieve_not_found_result env (the ?k)
                               | Some v \<Rightarrow> retrieve_success_result env (the ?k) v))]
       else Inl (ValueError (if truthy_arguments arguments then ''Missing key''
                             else ''Missing arguments'')))"
  proof (cases "truthy_str ?k")
    case True
    then obtain k where "?k = Some k" "k \<noteq> []"
      by (auto simp: truthy_str_iff)
    then show ?thesis using assms True by (simp add: retrieve_data_valid cong: option.case_cong)
  next
    case False
    then show ?thesis using assms by (simp add: retrieve_data_invalid)
  qed
  show ?thesis
    unfolding store retrieve missing_or_empty_iff
    by (simp add: store_result_def retrieve_not_found_result_def retrieve_success_result_def
             split: option.splits)
qed

theorem missing_or_empty_arguments_raise_witness:
  "authenticated env_with_key alice
   \<and> fst (handle_call_tool env_with_key alice ''store_data''
            (Some [(''key'', ''test_key''), (''value'', [])]) alice_stores)
       = Inl (ValueError ''Missing key or value'')
   \<and> fst (handle_call_tool env_with_key alice ''retrieve_data'' None alice_stores)
       = Inl (ValueError ''Missing arguments'')
   \<and> \<not> raised (fst (handle_call_tool env_with_key alice ''retrieve_data''
            (Some [(''key'', ''test_key'')]) alice_stores))"
proof -
  have a: "authenticated env_with_key alice" by (rule authenticated_env_with_key)
  have "fst (handle_call_tool env_with_key alice ''store_data''
            (Some [(''key'', ''test_key''), (''value'', [])]) alice_stores)
          \<noteq> Inl (ValueError ''Missing arguments'')"
    using a by (simp add: store_data_invalid arguments_get_def truthy_str_def truthy_arguments_def)
  moreover have "fst (handle_call_tool env_with_key alice ''retrieve_data'' None alice_stores)
          \<noteq> Inl (ValueError ''Missing key'')"
    using a by (simp add: retrieve_data_invalid arguments_get_def truthy_str_def truthy_arguments_def)
  ultimately show ?thesis
    using a
      missing_or_empty_arguments_raise[OF a, of "Some [(''key'', ''test_key''), (''value'', [])]" alice_stores]
      missing_or_empty_arguments_raise[OF a, of None alice_stores]
      missing_or_empty_arguments_raise[OF a, of "Some [(''key'', ''test_key'')]" alice_stores]
    by (simp add: arguments_get_def)
qed

subsection \<open>C9: reading tools leave the stores alone\<close>

text \<open>
  C9. \<^verbatim>\<open>retrieve_data\<close> and \<^verbatim>\<open>list_data\<close> return \<^verbatim>\<open>user_data_stores\<close> exactly as they found
  it, for every server, argument object, surroundings and state; a call that does change
  the mapping is a \<^verbatim>\<open>store_data\<close> call.
\<close>

theorem only_store_data_changes_the_stores:
  "snd (handle_call_tool env srv ''retrieve_data'' arguments s) = s \<and>
   snd (handle_call_tool env srv ''list_data'' arguments s) = s \<and>
   (snd (handle_call_tool env srv name arguments s) \<noteq> s \<longrightarrow> name = ''store_data'')"
  using handle_call_tool_not_store[of name env srv arguments s]
  by (auto simp: handle_call_tool_not_store)

theorem only_store_data_changes_the_stores_witness:
  "snd (handle_call_tool env_with_key alice ''store_data''
          (Some [(''key'', ''test_key''), (''value'', ''test_value'')]) alice_stores) \<noteq> alice_stores
   \<and> snd (handle_call_tool env_with_key alice ''retrieve_data''
          (Some [(''key'', ''test_key''), (''value'', ''test_value'')]) alice_stores) = alice_stores
   \<and> snd (handle_call_tool env_with_key alice ''list_data''
          (Some [(''key'', ''test_key''), (''value'', ''test_value'')]) alice_stores) = alice_stores"
proof -
  let ?a = "Some [(''key'', ''test_key''), (''value'', ''test_value'')]"
  have "snd (handle_call_tool env_with_key alice ''store_data'' ?a alice_stores) (Some ''alice'')
          = Some [(''test_key'', ''test_value'')]"
    by (simp add: store_data_valid authenticated_env_with_key arguments_get_def
          alice_def alice_stores_def create_server_def initial_stores_def truthy_str_def stores_get_def)
  moreover have "alice_stores (Some ''alice'') = Some []"
    by (simp add: alice_stores_def create_server_def initial_stores_def truthy_str_def)
  ultimately have "snd (handle_call_tool env_with_key alice ''store_data'' ?a alice_stores) \<noteq> alice_stores"
    by (metis list.distinct(1) option.inject)
  then show ?thesis
    using only_store_data_changes_the_stores[of env_with_key alice ?a alice_stores "''store_data''"]
    by simp
qed

subsection \<open>C10: a server without a user identifier\<close>

text \<open>
  C10, as amended. If the server's user identifier is \<^verbatim>\<open>None\<close> or the empty string and
  authentication succeeds for both calls, then in every state the module can reach
  \<^verbatim>\<open>store_data\<close> with a non-empty key and value returns its record with status
  \<^verbatim>\<open>success\<close>, \<^verbatim>\<open>user_data_stores\<close> stays as it was, and the retrieval of the same key that
  follows returns \<^verbatim>\<open>not_found\<close>.
\<close>

theorem store_without_user_identifier_is_not_saved:
  assumes "reachable s" and "user_id srv \<in> {None, Some []}" and "user_id srv2 = user_id srv"
    and "authenticated env1 srv" and "authenticated env2 srv2"
    and "arguments_get args1 ''key'' = Some k" and "k \<noteq> []"
    and "arguments_get args1 ''value'' = Some v" and "v \<noteq> []"
    and "arguments_get args2 ''key'' = Some k"
  shows "fst (handle_call_tool env1 srv ''store_data'' args1 s)
           = Inr [TextContent ''text'' (JsonDumps (store_result env1 k v))]
       \<and> result_field ''status'' (fst (handle_call_tool env1 srv ''store_data'' args1 s))
           = Some (JString ''success'')
       \<and> snd (handle_call_tool env1 srv ''store_data'' args1 s) = s
       \<and> fst (handle_call_tool env2 srv2 ''retrieve_data'' args2
                (snd (handle_call_tool env1 srv ''store_data'' args1 s)))
           = Inr [TextContent ''text'' (JsonDumps (retrieve_not_found_result env2 k))]
       \<and> result_field ''status''
           (fst (handle_call_tool env2 srv2 ''retrieve_data'' args2
                   (snd (handle_call_tool env1 srv ''store_data'' args1 s))))
           = Some (JString ''not_found'')"
proof -
  have falsy: "\<not> truthy_str (user_id srv)"
    using assms(2) by (auto simp: truthy_str_def)
  then have absent: "s (user_id srv) = None"
    using reachable_invariant[OF \<open>reachable s\<close>] by blast
  have same: "snd (handle_call_tool env1 srv ''store_data'' args1 s) = s"
    using assms falsy absent by (intro store_data_not_saved)
  have out: "fst (handle_call_tool env1 srv ''store_data'' args1 s)
           = Inr [TextContent ''text'' (JsonDumps (store_result env1 k v))]"
    using assms by (simp add: store_data_valid)
  have "map_of (stores_get s (user_id srv2)) k = None"
    using assms(3) by (simp add: absent stores_get_def)
  then have "fst (handle_call_tool env2 srv2 ''retrieve_data'' args2 s)
           = Inr [TextContent ''text'' (JsonDumps (retrieve_not_found_result env2 k))]"
    using assms by (simp add: retrieve_data_valid)
  then show ?thesis
    using same out by (simp add: store_result_def retrieve_not_found_result_def)
qed

theorem store_without_user_identifier_is_not_saved_witness:
  "result_field ''status''
     (fst (handle_call_tool env_with_key nobody ''store_data''
             (Some [(''key'', ''test_key''), (''value'', ''test_value'')]) nobody_stores))
     = Some (JString ''success'')
   \<and> result_field ''status''
       (fst (handle_call_tool env_with_key nobody ''retrieve_data'' (Some [(''key'', ''test_key'')])
          (snd (handle_call_tool env_with_key nobody ''store_data''
                  (Some [(''key'', ''test_key''), (''value'', ''test_value'')]) nobody_stores))))
     = Some (JString ''not_found'')"
proof -
  have r: "reachable nobody_stores"
    unfolding nobody_stores_def by (intro reachable.created reachable.initial)
  show ?thesis
    using store_without_user_identifier_is_not_saved
            [where s = nobody_stores and srv = nobody and ?srv2.0 = nobody
               and ?env1.0 = env_with_key and ?env2.0 = env_with_key
               and ?args1.0 = "Some [(''key'', ''test_key''), (''value'', ''test_value'')]"
               and ?args2.0 = "Some [(''key'', ''test_key'')]"
               and k = "''test_key''" and v = "''test_value''",
             OF r _ refl authenticated_env_with_key authenticated_env_with_key]
    by (auto simp: example_simps arguments_get_def)
qed

text \<open>
  C10 as stated, without the condition on authentication, fails: when the auth client has
  no credentials for the identifier \<^verbatim>\<open>""\<close>, the store call returns the authentication
  text and no record with status \<^verbatim>\<open>success\<close>.
\<close>

theorem store_without_user_identifier_unauthenticated_counterexample:
  "handle_call_tool env_without_key nobody ''store_data''
       (Some [(''key'', ''test_key''), (''value'', ''test_value'')]) nobody_stores =
     (Inr [TextContent ''text''
             (Plain ''Authentication error: Simple Tools API key not found for user . Please run authentication first.'')],
      nobody_stores)"
  by (simp add: not_authenticated not_authenticated_env_without_key
        handle_missing_credentials_def str_user_def example_simps)

end
